theory Spec2Isabelle
  imports Main
begin

section \<open>Product catalogue service: data model\<close>

text \<open>
  The service of \<^verbatim>\<open>service/routes.py\<close> is a set of Flask handlers over one table of
  products. The handlers are embedded here as functions from the request and the
  store to a result and the store. A handler either returns a response or raises;
  raising is the left summand of its result, and \<open>respond\<close> is the step of the
  framework that turns what was raised into the response that goes on the wire.

  Strings are byte lists: text is held as its UTF-8 encoding. The body of a request is
  taken as \<^verbatim>\<open>request.get_json()\<close> returns it when it is a JSON object: a mapping from
  keys to values.

  The module \<^verbatim>\<open>service/models.py\<close> (the entity, its enumeration and the persistence
  gateway) and the error handlers of \<^verbatim>\<open>service/common\<close> are not among the sources.
  What the handlers use of them is modelled from the specification, and each such
  definition says so.
\<close>

text \<open>
  Modelled from the spec: the enumeration \<^verbatim>\<open>Category\<close> of \<^verbatim>\<open>service/models.py\<close>,
  which is not among the sources. The members are the ones the data model lists.
\<close>

datatype Category = UNKNOWN | CLOTHS | FOOD | HOUSEWARES | AUTOMOTIVE | TOOLS

text \<open>The values of the fields of a JSON object: \<open>null\<close>, booleans, integers and strings.\<close>

datatype json = JNull | JBool bool | JInt int | JStr string

type_synonym payload = "string \<rightharpoonup> json"

text \<open>
  Modelled from the spec: the entity \<^verbatim>\<open>Product\<close> of \<^verbatim>\<open>service/models.py\<close>.
  The identifier is absent before the entity is persisted. The decimal type of the
  price belongs to the language's library; it is the type parameter \<open>'d\<close>, and its
  parser and printer are parameters of the functions that need them.
\<close>

record 'd Product =
  id_p :: "nat option"
  name :: string
  description :: string
  price :: 'd
  available :: bool
  category :: Category

text \<open>
  Modelled from the spec: the name of a member of the enumeration, \<^verbatim>\<open>category.name\<close>,
  which is what serialisation writes.
\<close>

fun Category_name :: "Category \<Rightarrow> string" where
  "Category_name UNKNOWN = ''UNKNOWN''"
| "Category_name CLOTHS = ''CLOTHS''"
| "Category_name FOOD = ''FOOD''"
| "Category_name HOUSEWARES = ''HOUSEWARES''"
| "Category_name AUTOMOTIVE = ''AUTOMOTIVE''"
| "Category_name TOOLS = ''TOOLS''"

text \<open>
  Modelled from the spec: the lookup \<^verbatim>\<open>getattr(Category, s)\<close> in the enumeration, which is
  not among the sources. The result is the member called \<open>s\<close>, or \<open>None\<close> where the
  lookup raises \<^verbatim>\<open>AttributeError\<close>. Every attribute of an enumeration class that is
  not a member has a lower-case letter in its name, so no upper-cased token reaches
  one.
\<close>

definition getattr_Category :: "string \<Rightarrow> Category option" where
  "getattr_Category s =
     (if s = ''UNKNOWN'' then Some UNKNOWN
      else if s = ''CLOTHS'' then Some CLOTHS
      else if s = ''FOOD'' then Some FOOD
      else if s = ''HOUSEWARES'' then Some HOUSEWARES
      else if s = ''AUTOMOTIVE'' then Some AUTOMOTIVE
      else if s = ''TOOLS'' then Some TOOLS
      else None)"

subsection \<open>Case conversion of text\<close>

text \<open>
  The text of a request is Unicode, held here as the bytes of its UTF-8 encoding, and
  \<^verbatim>\<open>str.upper()\<close> and \<^verbatim>\<open>str.lower()\<close> are the built-in conversions of the language. The
  conversion to upper case maps the letters \<open>a\<close> to \<open>z\<close> to \<open>A\<close> to \<open>Z\<close> and, besides,
  ten code points outside ASCII to ASCII text: U+00DF to \<open>SS\<close>, U+0131 to \<open>I\<close>, U+017F
  to \<open>S\<close>, and the ligatures U+FB00 to U+FB06 to \<open>FF\<close>, \<open>FI\<close>, \<open>FL\<close>, \<open>FFI\<close>, \<open>FFL\<close>,
  \<open>ST\<close>, \<open>ST\<close>. \<open>upper_2\<close> and \<open>upper_3\<close> are these ten, by the two or three bytes of
  their encoding. The upper case of every other code point outside ASCII has a code
  point outside ASCII in it; the model leaves the bytes of such a code point as they
  are. So \<open>upper\<close> gives what \<^verbatim>\<open>str.upper()\<close> gives whenever that is ASCII text, and
  text with a byte outside ASCII whenever it is not: the two agree on whether the
  converted token is a given ASCII name.
\<close>

definition upper_char :: "char \<Rightarrow> char" where
  "upper_char c =
     (case map_of (zip ''abcdefghijklmnopqrstuvwxyz'' ''ABCDEFGHIJKLMNOPQRSTUVWXYZ'') c of
        Some u \<Rightarrow> u
      | None \<Rightarrow> c)"

definition upper_2 :: "char \<Rightarrow> char \<Rightarrow> string option" where
  "upper_2 a b =
     (if a = CHR 0xC3 \<and> b = CHR 0x9F then Some ''SS''
      else if a = CHR 0xC4 \<and> b = CHR 0xB1 then Some ''I''
      else if a = CHR 0xC5 \<and> b = CHR 0xBF then Some ''S''
      else None)"

definition upper_3 :: "char \<Rightarrow> char \<Rightarrow> char \<Rightarrow> string option" where
  "upper_3 a b c =
     (if a = CHR 0xEF \<and> b = CHR 0xAC then
        (if c = CHR 0x80 then Some ''FF''
         else if c = CHR 0x81 then Some ''FI''
         else if c = CHR 0x82 then Some ''FL''
         else if c = CHR 0x83 then Some ''FFI''
         else if c = CHR 0x84 then Some ''FFL''
         else if c = CHR 0x85 then Some ''ST''
         else if c = CHR 0x86 then Some ''ST''
         else None)
      else None)"

fun upper :: "string \<Rightarrow> string" where
  "upper [] = []"
| "upper [a] = [upper_char a]"
| "upper [a, b] =
     (case upper_2 a b of
        Some u \<Rightarrow> u
      | None \<Rightarrow> upper_char a # upper [b])"
| "upper (a # b # c # cs) =
     (case upper_3 a b c of
        Some u \<Rightarrow> u @ upper cs
      | None \<Rightarrow>
          (case upper_2 a b of
             Some u \<Rightarrow> u @ upper (c # cs)
           | None \<Rightarrow> upper_char a # upper (b # c # cs)))"

text \<open>
  The conversion to lower case maps \<open>A\<close> to \<open>Z\<close> to \<open>a\<close> to \<open>z\<close>. The only code point
  outside ASCII whose lower case is ASCII text is U+212A, which becomes \<open>k\<close>; no
  availability token has a \<open>k\<close>, so leaving its bytes as they are changes nothing for
  the question whether the converted token is one of the tokens.
\<close>

definition lower_char :: "char \<Rightarrow> char" where
  "lower_char c =
     (case map_of (zip ''ABCDEFGHIJKLMNOPQRSTUVWXYZ'' ''abcdefghijklmnopqrstuvwxyz'') c of
        Some l \<Rightarrow> l
      | None \<Rightarrow> c)"

definition lower :: "string \<Rightarrow> string" where
  "lower s = map lower_char s"

subsection \<open>Exceptions, requests and responses\<close>

text \<open>
  The text of an error. The source builds it with a format string; the model keeps
  the template as a constructor and the value that is put in as its argument.
\<close>

datatype message =
    Content_Type_must_be string
  | Invalid_category string
  | Invalid_value_for_available string
  | Product_not_found_for_id nat
  | Text string

text \<open>
  Modelled from the spec: what the validation of a payload reports
  (\<^verbatim>\<open>DataValidationError\<close> of \<^verbatim>\<open>service/models.py\<close>): a key that is missing, a field
  of the wrong type, or a category that is no member of the enumeration.
\<close>

datatype validation =
    Missing_key string
  | Invalid_type string json
  | Unknown_category string

text \<open>
  What a handler can raise. \<open>HTTPException\<close> is what \<^verbatim>\<open>abort(code, text)\<close> raises.
  The three built-in kinds carry the value of their attribute \<^verbatim>\<open>message\<close> when the
  exception object has one.
\<close>

datatype exn =
    HTTPException nat message
  | DataValidationError validation
  | AttributeError "string option"
  | KeyError "string option"
  | TypeError "string option"

text \<open>
  What the handlers read of a request: the headers, the query parameters
  (\<^verbatim>\<open>request.args.get\<close> is \<open>None\<close> for a parameter that is not there) and the parsed
  body.
\<close>

record request =
  headers :: "string \<rightharpoonup> string"
  args :: "string \<rightharpoonup> string"
  get_json :: payload

text \<open>
  The address that \<^verbatim>\<open>url_for("get_product", product_id=...)\<close> builds, kept as the
  endpoint and its argument.
\<close>

datatype url = Url_get_product "nat option"

text \<open>
  What a response carries: a serialised entity, a list of them, a text, or what an
  error handler makes of an abort, of a validation failure or of any other exception.
\<close>

datatype body =
    Body_dict payload
  | Body_list "payload list"
  | Body_text string
  | Body_error message
  | Body_validation validation
  | Body_server_error

record response =
  status :: nat
  body :: body
  response_headers :: "(string \<times> url) list"

text \<open>
  Modelled from the spec: the status codes of \<^verbatim>\<open>service/common/status.py\<close>, which is not
  among the sources; the values are the standard ones the interface names.
\<close>

definition HTTP_200_OK :: nat where "HTTP_200_OK = 200"
definition HTTP_201_CREATED :: nat where "HTTP_201_CREATED = 201"
definition HTTP_204_NO_CONTENT :: nat where "HTTP_204_NO_CONTENT = 204"
definition HTTP_400_BAD_REQUEST :: nat where "HTTP_400_BAD_REQUEST = 400"
definition HTTP_404_NOT_FOUND :: nat where "HTTP_404_NOT_FOUND = 404"
definition HTTP_415_UNSUPPORTED_MEDIA_TYPE :: nat where "HTTP_415_UNSUPPORTED_MEDIA_TYPE = 415"
definition HTTP_500_INTERNAL_SERVER_ERROR :: nat where "HTTP_500_INTERNAL_SERVER_ERROR = 500"

text \<open>
  Modelled from the spec: the error handlers of the service (\<^verbatim>\<open>service/common\<close>), which
  are not among the sources. An abort surfaces with its own status, a validation
  failure as 400, and anything else that escapes a handler as a server error.
\<close>

fun respond :: "exn + response \<Rightarrow> response" where
  "respond (Inr r) = r"
| "respond (Inl (HTTPException code m)) =
     \<lparr>status = code, body = Body_error m, response_headers = []\<rparr>"
| "respond (Inl (DataValidationError v)) =
     \<lparr>status = HTTP_400_BAD_REQUEST, body = Body_validation v, response_headers = []\<rparr>"
| "respond (Inl e) =
     \<lparr>status = HTTP_500_INTERNAL_SERVER_ERROR, body = Body_server_error, response_headers = []\<rparr>"

section \<open>Entity model and persistence gateway\<close>

text \<open>
  Modelled from the spec: \<^verbatim>\<open>Product.serialize\<close>. The keys are \<open>id\<close>, \<open>name\<close>,
  \<open>description\<close>, \<open>price\<close> (the decimal as text), \<open>available\<close> and \<open>category\<close> (the
  member's name).
\<close>

definition serialize :: "('d \<Rightarrow> string) \<Rightarrow> 'd Product \<Rightarrow> payload" where
  "serialize str p =
     [''id'' \<mapsto> (case id_p p of None \<Rightarrow> JNull | Some i \<Rightarrow> JInt (int i)),
      ''name'' \<mapsto> JStr (name p),
      ''description'' \<mapsto> JStr (description p),
      ''price'' \<mapsto> JStr (str (price p)),
      ''available'' \<mapsto> JBool (available p),
      ''category'' \<mapsto> JStr (Category_name (category p))]"

text \<open>
  Modelled from the spec: \<^verbatim>\<open>Product.deserialize\<close>, which is not among the sources. Each
  field must be present; \<open>name\<close> and \<open>description\<close> must be text, \<open>available\<close> a
  boolean, \<open>price\<close> must parse as a decimal and \<open>category\<close> must be the name of a
  member (the spec leaves the casing to the deployment; the name is compared as it is
  written, which is what serialisation produces). The fields are checked in the order
  in which the spec lists them. The only field of the target that is kept is its
  identifier, the first argument: a new entity has none, an update passes the one of
  the entity it found. On failure nothing is set, and the failure is always a
  validation error.
\<close>

definition deserialize :: "(json \<Rightarrow> 'd option) \<Rightarrow> nat option \<Rightarrow> payload \<Rightarrow> exn + 'd Product" where
  "deserialize Decimal self_id data =
     (case data ''name'' of
        None \<Rightarrow> Inl (DataValidationError (Missing_key ''name''))
      | Some (JStr n) \<Rightarrow>
          (case data ''description'' of
             None \<Rightarrow> Inl (DataValidationError (Missing_key ''description''))
           | Some (JStr d) \<Rightarrow>
               (case data ''available'' of
                  None \<Rightarrow> Inl (DataValidationError (Missing_key ''available''))
                | Some (JBool a) \<Rightarrow>
                    (case data ''price'' of
                       None \<Rightarrow> Inl (DataValidationError (Missing_key ''price''))
                     | Some v \<Rightarrow>
                         (case Decimal v of
                            None \<Rightarrow> Inl (DataValidationError (Invalid_type ''price'' v))
                          | Some pr \<Rightarrow>
                              (case data ''category'' of
                                 None \<Rightarrow> Inl (DataValidationError (Missing_key ''category''))
                               | Some (JStr c) \<Rightarrow>
                                   (case getattr_Category c of
                                      None \<Rightarrow> Inl (DataValidationError (Unknown_category c))
                                    | Some cat \<Rightarrow>
                                        Inr \<lparr>id_p = self_id, name = n, description = d,
                                             price = pr, available = a, category = cat\<rparr>)
                               | Some w \<Rightarrow>
                                   Inl (DataValidationError (Invalid_type ''category'' w)))))
                | Some w \<Rightarrow> Inl (DataValidationError (Invalid_type ''available'' w)))
           | Some w \<Rightarrow> Inl (DataValidationError (Invalid_type ''description'' w)))
      | Some w \<Rightarrow> Inl (DataValidationError (Invalid_type ''name'' w)))"

text \<open>
  Modelled from the spec: the store behind the persistence gateway, which is not among
  the sources. It is one table, in the order of the store, and the counter from which
  the identifiers come (an auto-increment key).
\<close>

record 'd db =
  rows :: "'d Product list"
  next_id :: nat

text \<open>Modelled from the spec: \<^verbatim>\<open>Product.all()\<close>, every row in the order of the store.\<close>

definition Product_all :: "'d db \<Rightarrow> 'd Product list" where
  "Product_all s = rows s"

text \<open>
  Modelled from the spec: \<^verbatim>\<open>Product.find(id)\<close>, the entity with that identifier, or
  \<open>None\<close>; it never raises.
\<close>

definition Product_find :: "nat \<Rightarrow> 'd db \<Rightarrow> 'd Product option" where
  "Product_find product_id s = find (\<lambda>p. id_p p = Some product_id) (rows s)"

text \<open>
  Modelled from the spec: \<^verbatim>\<open>product.create()\<close>, which assigns the next identifier of the
  counter to the entity and stores it as a new row.
\<close>

definition Product_create :: "'d Product \<Rightarrow> 'd db \<Rightarrow> 'd Product \<times> 'd db" where
  "Product_create p s =
     (let p' = p\<lparr>id_p := Some (next_id s)\<rparr>
      in (p', s\<lparr>rows := rows s @ [p'], next_id := Suc (next_id s)\<rparr>))"

text \<open>
  Modelled from the spec: \<^verbatim>\<open>product.update()\<close>, which replaces every field of the row
  that has the identifier of the entity.
\<close>

definition Product_update :: "'d Product \<Rightarrow> 'd db \<Rightarrow> 'd db" where
  "Product_update p s = s\<lparr>rows := map (\<lambda>q. if id_p q = id_p p then p else q) (rows s)\<rparr>"

text \<open>
  Modelled from the spec: \<^verbatim>\<open>product.delete()\<close>, which removes the row that has the
  identifier of the entity.
\<close>

definition Product_delete :: "'d Product \<Rightarrow> 'd db \<Rightarrow> 'd db" where
  "Product_delete p s = s\<lparr>rows := filter (\<lambda>q. id_p q \<noteq> id_p p) (rows s)\<rparr>"

section \<open>The handlers of \<^verbatim>\<open>service/routes.py\<close>\<close>

text \<open>\<^verbatim>\<open>abort(code, text)\<close> raises, so nothing after it runs.\<close>

definition abort :: "nat \<Rightarrow> message \<Rightarrow> exn + 'a" where
  "abort code m = Inl (HTTPException code m)"

definition check_content_type :: "string \<Rightarrow> request \<Rightarrow> exn + unit" where
  "check_content_type content_type req =
     (case headers req ''Content-Type'' of
        None \<Rightarrow> abort HTTP_415_UNSUPPORTED_MEDIA_TYPE (Content_Type_must_be content_type)
      | Some ct \<Rightarrow>
          if ct = content_type then Inr ()
          else abort HTTP_415_UNSUPPORTED_MEDIA_TYPE (Content_Type_must_be content_type))"

text \<open>
  \<^verbatim>\<open>url_for("get_product", product_id=..., _external=True)\<close>: the address of the read
  endpoint of that identifier.
\<close>

definition url_for_get_product :: "nat option \<Rightarrow> url" where
  "url_for_get_product product_id = Url_get_product product_id"

text \<open>
  \<^verbatim>\<open>POST /products\<close>. Nothing is caught here: what \<open>deserialize\<close> raises leaves the
  handler as it is.
\<close>

definition create_products ::
  "(json \<Rightarrow> 'd option) \<Rightarrow> ('d \<Rightarrow> string) \<Rightarrow> request \<Rightarrow> 'd db \<Rightarrow> (exn + response) \<times> 'd db" where
  "create_products Decimal str req s =
     (case check_content_type ''application/json'' req of
        Inl e \<Rightarrow> (Inl e, s)
      | Inr _ \<Rightarrow>
          (let data = get_json req in
           case deserialize Decimal None data of
             Inl e \<Rightarrow> (Inl e, s)
           | Inr product \<Rightarrow>
               (let (product, s') = Product_create product s;
                    message = serialize str product;
                    location_url = url_for_get_product (id_p product)
                in (Inr \<lparr>status = HTTP_201_CREATED, body = Body_dict message,
                         response_headers = [(''Location'', location_url)]\<rparr>, s'))))"

text \<open>
  \<^verbatim>\<open>GET /products\<close>. A query parameter is \<open>None\<close> when the request has none of that
  name; the test \<^verbatim>\<open>if name:\<close> fails for \<open>None\<close> and for the empty text alike. The
  three steps run in the order of the source, each on the list the step before left,
  and the first abort ends the handler.
\<close>

definition get_products :: "('d \<Rightarrow> string) \<Rightarrow> request \<Rightarrow> 'd db \<Rightarrow> exn + response" where
  "get_products str req s =
     (let name_arg = args req ''name'';
          category_str = args req ''category'';
          available_str = args req ''available'';
          products = Product_all s;
          products =
            (case name_arg of
               None \<Rightarrow> products
             | Some n \<Rightarrow> if n = [] then products else filter (\<lambda>p. name p = n) products)
      in case (case category_str of
                 None \<Rightarrow> Inr products
               | Some c \<Rightarrow>
                   if c = [] then Inr products
                   else (case getattr_Category (upper c) of
                           Some cat \<Rightarrow> Inr (filter (\<lambda>p. category p = cat) products)
                         | None \<Rightarrow> abort HTTP_400_BAD_REQUEST (Invalid_category c))) of
           Inl e \<Rightarrow> Inl e
         | Inr products \<Rightarrow>
             (case (case available_str of
                      None \<Rightarrow> Inr products
                    | Some a \<Rightarrow>
                        if a = [] then Inr products
                        else if lower a \<in> set [''true'', ''t'', ''1'', ''yes'']
                          then Inr (filter (\<lambda>p. available p = True) products)
                        else if lower a \<in> set [''false'', ''f'', ''0'', ''no'']
                          then Inr (filter (\<lambda>p. available p = False) products)
                        else abort HTTP_400_BAD_REQUEST (Invalid_value_for_available a)) of
                Inl e \<Rightarrow> Inl e
              | Inr products \<Rightarrow>
                  (let product_list = map (serialize str) products
                   in Inr \<lparr>status = HTTP_200_OK, body = Body_list product_list,
                           response_headers = []\<rparr>)))"

text \<open>\<^verbatim>\<open>GET /products/<int:product_id>\<close>.\<close>

definition get_product :: "('d \<Rightarrow> string) \<Rightarrow> nat \<Rightarrow> 'd db \<Rightarrow> exn + response" where
  "get_product str product_id s =
     (case Product_find product_id s of
        None \<Rightarrow> abort HTTP_404_NOT_FOUND (Product_not_found_for_id product_id)
      | Some found_product \<Rightarrow>
          (let message = serialize str found_product
           in Inr \<lparr>status = HTTP_200_OK, body = Body_dict message, response_headers = []\<rparr>))"

text \<open>
  What \<^verbatim>\<open>abort(status.HTTP_400_BAD_REQUEST, error.message)\<close> does in the three
  \<^verbatim>\<open>except\<close> clauses of the update: the argument is evaluated first, and reading the
  attribute of an exception object that has none raises \<^verbatim>\<open>AttributeError\<close>.
\<close>

definition abort_with_message_of :: "string option \<Rightarrow> exn + 'a" where
  "abort_with_message_of error_message =
     (case error_message of
        Some m \<Rightarrow> abort HTTP_400_BAD_REQUEST (Text m)
      | None \<Rightarrow> Inl (AttributeError None))"

text \<open>
  \<^verbatim>\<open>PUT /products/<int:product_id>\<close>. The lookup comes first, then the media type,
  then the payload; the store changes only in the last step.
\<close>

definition update_product ::
  "(json \<Rightarrow> 'd option) \<Rightarrow> ('d \<Rightarrow> string) \<Rightarrow> nat \<Rightarrow> request \<Rightarrow> 'd db \<Rightarrow> (exn + response) \<times> 'd db" where
  "update_product Decimal str product_id req s =
     (case Product_find product_id s of
        None \<Rightarrow> (abort HTTP_404_NOT_FOUND (Product_not_found_for_id product_id), s)
      | Some found_product \<Rightarrow>
          (case check_content_type ''application/json'' req of
             Inl e \<Rightarrow> (Inl e, s)
           | Inr _ \<Rightarrow>
               (let data = get_json req in
                case deserialize Decimal (id_p found_product) data of
                  Inl (AttributeError m) \<Rightarrow> (abort_with_message_of m, s)
                | Inl (KeyError m) \<Rightarrow> (abort_with_message_of m, s)
                | Inl (TypeError m) \<Rightarrow> (abort_with_message_of m, s)
                | Inl e \<Rightarrow> (Inl e, s)
                | Inr found_product \<Rightarrow>
                    (let s' = Product_update found_product s;
                         message = serialize str found_product
                     in (Inr \<lparr>status = HTTP_200_OK, body = Body_dict message,
                              response_headers = []\<rparr>, s')))))"

text \<open>\<^verbatim>\<open>DELETE /products/<int:product_id>\<close>.\<close>

definition delete_product :: "nat \<Rightarrow> 'd db \<Rightarrow> (exn + response) \<times> 'd db" where
  "delete_product product_id s =
     (case Product_find product_id s of
        None \<Rightarrow> (abort HTTP_404_NOT_FOUND (Product_not_found_for_id product_id), s)
      | Some found_product \<Rightarrow>
          (let s' = Product_delete found_product s
           in (Inr \<lparr>status = HTTP_204_NO_CONTENT, body = Body_text [],
                    response_headers = []\<rparr>, s')))"

section \<open>Vocabulary of the properties\<close>

text \<open>
  The query filter in the words of the specification, to be compared with what the
  handler computes: how an availability token is read, when a product meets each
  criterion of a request, and when the criteria of a request are valid. A parameter
  that is absent or empty is no criterion.
\<close>

definition parse_available :: "string \<Rightarrow> bool option" where
  "parse_available a =
     (if lower a \<in> set [''true'', ''t'', ''1'', ''yes''] then Some True
      else if lower a \<in> set [''false'', ''f'', ''0'', ''no''] then Some False
      else None)"

definition name_matches :: "request \<Rightarrow> 'd Product \<Rightarrow> bool" where
  "name_matches req p =
     (case args req ''name'' of None \<Rightarrow> True | Some n \<Rightarrow> n = [] \<or> name p = n)"

definition category_matches :: "request \<Rightarrow> 'd Product \<Rightarrow> bool" where
  "category_matches req p =
     (case args req ''category'' of
        None \<Rightarrow> True
      | Some c \<Rightarrow> c = [] \<or> getattr_Category (upper c) = Some (category p))"

definition available_matches :: "request \<Rightarrow> 'd Product \<Rightarrow> bool" where
  "available_matches req p =
     (case args req ''available'' of
        None \<Rightarrow> True
      | Some a \<Rightarrow> a = [] \<or> parse_available a = Some (available p))"

definition category_ok :: "request \<Rightarrow> bool" where
  "category_ok req =
     (case args req ''category'' of
        None \<Rightarrow> True
      | Some c \<Rightarrow> c = [] \<or> getattr_Category (upper c) \<noteq> None)"

definition available_ok :: "request \<Rightarrow> bool" where
  "available_ok req =
     (case args req ''available'' of
        None \<Rightarrow> True
      | Some a \<Rightarrow> a = [] \<or> parse_available a \<noteq> None)"

text \<open>The response of a listing: 200 and the serialisation of each product, in order.\<close>

definition listing :: "('d \<Rightarrow> string) \<Rightarrow> 'd Product list \<Rightarrow> exn + response" where
  "listing str ps =
     Inr \<lparr>status = 200, body = Body_list (map (serialize str) ps), response_headers = []\<rparr>"

text \<open>
  The counter of the store is ahead of every identifier in the table, so the next
  identifier it hands out is new.
\<close>

definition store_ok :: "'d db \<Rightarrow> bool" where
  "store_ok s =
     (\<forall>p\<in>set (rows s). case id_p p of None \<Rightarrow> False | Some i \<Rightarrow> i < next_id s)"

subsection \<open>A small catalogue for the examples\<close>

text \<open>
  In the examples the decimal of a price is kept as the text it was sent as: the
  parser accepts a JSON string and the printer gives it back.
\<close>

definition Decimal_text :: "json \<Rightarrow> string option" where
  "Decimal_text v = (case v of JStr t \<Rightarrow> Some t | _ \<Rightarrow> None)"

definition str_text :: "string \<Rightarrow> string" where
  "str_text d = d"

definition fedora :: "string Product" where
  "fedora = \<lparr>id_p = Some 1, name = ''Fedora'', description = ''A red hat'',
             price = ''12.50'', available = True, category = CLOTHS\<rparr>"

definition apple :: "string Product" where
  "apple = \<lparr>id_p = Some 2, name = ''Apple'', description = ''A green fruit'',
            price = ''0.99'', available = False, category = FOOD\<rparr>"

definition beret :: "string Product" where
  "beret = \<lparr>id_p = Some 3, name = ''Beret'', description = ''A blue hat'',
            price = ''9.00'', available = False, category = CLOTHS\<rparr>"

definition catalogue :: "string db" where
  "catalogue = \<lparr>rows = [fedora, apple, beret], next_id = 4\<rparr>"

definition query :: "(string \<times> string) list \<Rightarrow> request" where
  "query kvs = \<lparr>headers = Map.empty, args = map_of kvs, get_json = Map.empty\<rparr>"

definition json_request :: "(string \<times> json) list \<Rightarrow> request" where
  "json_request kvs =
     \<lparr>headers = [''Content-Type'' \<mapsto> ''application/json''], args = Map.empty,
      get_json = map_of kvs\<rparr>"

definition no_name :: "(string \<times> json) list" where
  "no_name = [(''description'', JStr ''A red hat''), (''price'', JStr ''12.50''),
              (''available'', JBool True), (''category'', JStr ''CLOTHS'')]"

definition bad_category :: "(string \<times> json) list" where
  "bad_category = [(''name'', JStr ''Fedora''), (''description'', JStr ''A red hat''),
                   (''price'', JStr ''12.50''), (''available'', JBool True),
                   (''category'', JInt 1000)]"

definition new_tool :: "(string \<times> json) list" where
  "new_tool = [(''id'', JInt 99), (''name'', JStr ''Hammer''), (''description'', JStr ''A claw hammer''),
               (''price'', JStr ''111.11''), (''available'', JBool True),
               (''category'', JStr ''TOOLS'')]"

definition plain_text_request :: request where
  "plain_text_request = \<lparr>headers = [''Content-Type'' \<mapsto> ''plain/text''], args = Map.empty,
                          get_json = Map.empty\<rparr>"

section \<open>Properties\<close>

lemmas status_defs =
  HTTP_200_OK_def HTTP_201_CREATED_def HTTP_204_NO_CONTENT_def HTTP_400_BAD_REQUEST_def
  HTTP_404_NOT_FOUND_def HTTP_415_UNSUPPORTED_MEDIA_TYPE_def HTTP_500_INTERNAL_SERVER_ERROR_def

lemmas example_defs =
  query_def json_request_def catalogue_def fedora_def apple_def beret_def Decimal_text_def
  str_text_def

lemmas text_defs =
  upper_2_def upper_3_def upper_char_def lower_def lower_char_def getattr_Category_def

lemmas criteria_defs =
  parse_available_def name_matches_def category_matches_def available_matches_def
  category_ok_def available_ok_def

subsection \<open>The listing handler, step by step\<close>

lemma filter_conj2: "filter P (filter Q xs) = filter (\<lambda>x. Q x \<and> P x) xs"
  by (induction xs) auto

lemma name_matches_eq:
  "name_matches req =
     (case args req ''name'' of
        None \<Rightarrow> (\<lambda>p. True)
      | Some n \<Rightarrow> if n = [] then (\<lambda>p. True) else (\<lambda>p. name p = n))"
  by (simp add: name_matches_def fun_eq_iff split: option.split)

lemma category_matches_eq:
  "category_matches req =
     (case args req ''category'' of
        None \<Rightarrow> (\<lambda>p. True)
      | Some c \<Rightarrow>
          if c = [] then (\<lambda>p. True) else (\<lambda>p. getattr_Category (upper c) = Some (category p)))"
  by (simp add: category_matches_def fun_eq_iff split: option.split)

lemma available_matches_eq:
  "available_matches req =
     (case args req ''available'' of
        None \<Rightarrow> (\<lambda>p. True)
      | Some a \<Rightarrow>
          if a = [] then (\<lambda>p. True) else (\<lambda>p. parse_available a = Some (available p)))"
  by (simp add: available_matches_def fun_eq_iff split: option.split)

lemma name_step:
  "(case args req ''name'' of
      None \<Rightarrow> xs
    | Some n \<Rightarrow> if n = [] then xs else filter (\<lambda>p. name p = n) xs) =
   filter (name_matches req) xs"
  by (simp add: name_matches_eq split: option.split)

lemma category_step:
  assumes "category_ok req"
  shows "(case args req ''category'' of
            None \<Rightarrow> Inr xs
          | Some c \<Rightarrow>
              if c = [] then Inr xs
              else (case getattr_Category (upper c) of
                      Some cat \<Rightarrow> Inr (filter (\<lambda>p. category p = cat) xs)
                    | None \<Rightarrow> abort HTTP_400_BAD_REQUEST (Invalid_category c))) =
         (Inr (filter (category_matches req) xs) :: exn + 'd Product list)"
proof (cases "args req ''category''")
  case None
  then show ?thesis by (simp add: category_matches_eq)
next
  case (Some c)
  show ?thesis
  proof (cases "c = []")
    case True
    with Some show ?thesis by (simp add: category_matches_eq)
  next
    case False
    with Some assms obtain cat where "getattr_Category (upper c) = Some cat"
      by (auto simp: category_ok_def)
    with Some False show ?thesis
      by (auto simp: category_matches_eq intro!: filter_cong)
  qed
qed

lemma available_step:
  assumes "available_ok req"
  shows "(case args req ''available'' of
            None \<Rightarrow> Inr xs
          | Some a \<Rightarrow>
              if a = [] then Inr xs
              else if lower a \<in> set [''true'', ''t'', ''1'', ''yes'']
                then Inr (filter (\<lambda>p. available p = True) xs)
              else if lower a \<in> set [''false'', ''f'', ''0'', ''no'']
                then Inr (filter (\<lambda>p. available p = False) xs)
              else abort HTTP_400_BAD_REQUEST (Invalid_value_for_available a)) =
         (Inr (filter (available_matches req) xs) :: exn + 'd Product list)"
proof (cases "args req ''available''")
  case None
  then show ?thesis by (simp add: available_matches_eq)
next
  case (Some a)
  show ?thesis
  proof (cases "a = []")
    case True
    with Some show ?thesis by (simp add: available_matches_eq)
  next
    case False
    with Some assms obtain b where b: "parse_available a = Some b"
      by (auto simp: available_ok_def)
    have m: "available_matches req = (\<lambda>p. available p = b)"
      using Some False b by (auto simp: available_matches_eq)
    show ?thesis
    proof (cases "lower a \<in> set [''true'', ''t'', ''1'', ''yes'']")
      case True
      then have "parse_available a = Some True" by (simp only: parse_available_def if_True)
      with b have "b = True" by simp
      with Some False True show ?thesis
        by (simp only: m option.case if_True if_False)
    next
      case nt: False
      show ?thesis
      proof (cases "lower a \<in> set [''false'', ''f'', ''0'', ''no'']")
        case True
        with nt have "parse_available a = Some False" by (simp only: parse_available_def if_True if_False)
        with b have "b = False" by simp
        with Some False nt True show ?thesis
          by (simp only: m option.case if_True if_False)
      next
        case nf: False
        with nt have "parse_available a = None" by (simp only: parse_available_def if_False)
        with b show ?thesis by simp
      qed
    qed
  qed
qed

lemma get_products_valid:
  assumes "category_ok req" and "available_ok req"
  shows "get_products str req s =
           listing str (filter (\<lambda>p. name_matches req p \<and> category_matches req p \<and> available_matches req p) (rows s))"
proof -
  have "get_products str req s =
          listing str (filter (available_matches req) (filter (category_matches req)
            (filter (name_matches req) (rows s))))"
    unfolding get_products_def Let_def Product_all_def
    by (simp only: name_step category_step[OF assms(1)] available_step[OF assms(2)] sum.case
          listing_def HTTP_200_OK_def)
  then show ?thesis
    by (simp add: filter_conj2 conj_assoc)
qed

subsection \<open>Tokens and member names\<close>

text \<open>
  The ten code points outside ASCII whose upper case is ASCII text, by their UTF-8
  bytes, and a token written with one of them.
\<close>

lemma upper_special_code_points:
  "upper [CHR 0xC3, CHR 0x9F] = ''SS'' \<and> upper [CHR 0xC4, CHR 0xB1] = ''I''
   \<and> upper [CHR 0xC5, CHR 0xBF] = ''S''
   \<and> upper [CHR 0xEF, CHR 0xAC, CHR 0x80] = ''FF'' \<and> upper [CHR 0xEF, CHR 0xAC, CHR 0x81] = ''FI''
   \<and> upper [CHR 0xEF, CHR 0xAC, CHR 0x82] = ''FL'' \<and> upper [CHR 0xEF, CHR 0xAC, CHR 0x83] = ''FFI''
   \<and> upper [CHR 0xEF, CHR 0xAC, CHR 0x84] = ''FFL'' \<and> upper [CHR 0xEF, CHR 0xAC, CHR 0x85] = ''ST''
   \<and> upper [CHR 0xEF, CHR 0xAC, CHR 0x86] = ''ST''"
  by (simp add: upper_2_def upper_3_def)

lemma upper_long_s_token:
  "getattr_Category (upper (''cloth'' @ [CHR 0xC5, CHR 0xBF])) = Some CLOTHS"
  by (simp add: upper_2_def upper_3_def upper_char_def getattr_Category_def)

lemma parse_available_None:
  "(parse_available a = None) =
     (lower a \<notin> {''true'', ''t'', ''1'', ''yes'', ''false'', ''f'', ''0'', ''no''})"
  unfolding parse_available_def by (simp split: if_split)

lemma parse_available_True:
  "lower a \<in> {''true'', ''t'', ''1'', ''yes''} \<Longrightarrow> parse_available a = Some True"
  unfolding parse_available_def by simp

lemma parse_available_False:
  "lower a \<in> {''false'', ''f'', ''0'', ''no''} \<Longrightarrow> parse_available a = Some False"
  unfolding parse_available_def by auto

lemma getattr_Category_iff: "(getattr_Category t = Some cat) = (t = Category_name cat)"
  unfolding getattr_Category_def by (cases cat) (simp_all split: if_split)

lemma getattr_Category_None: "(getattr_Category t = None) = (\<forall>cat. t \<noteq> Category_name cat)"
proof
  assume "getattr_Category t = None"
  then show "\<forall>cat. t \<noteq> Category_name cat"
    using getattr_Category_iff[of t] by auto
next
  assume a: "\<forall>cat. t \<noteq> Category_name cat"
  show "getattr_Category t = None"
  proof (cases "getattr_Category t")
    case None
    then show ?thesis .
  next
    case (Some cat)
    with a show ?thesis by (simp add: getattr_Category_iff)
  qed
qed

subsection \<open>Rejected listings and empty parameters\<close>

lemma get_products_bad_category:
  assumes "args req ''category'' = Some c" and "c \<noteq> []" and "getattr_Category (upper c) = None"
  shows "get_products str req s = abort 400 (Invalid_category c)"
  unfolding get_products_def Let_def
  by (simp only: assms option.case if_False sum.case abort_def HTTP_400_BAD_REQUEST_def)

lemma get_products_bad_available:
  assumes "category_ok req" and "args req ''available'' = Some a" and "a \<noteq> []"
    and "parse_available a = None"
  shows "get_products str req s = abort 400 (Invalid_value_for_available a)"
proof -
  from assms(4) have nt: "lower a \<notin> set [''true'', ''t'', ''1'', ''yes'']"
    and nf: "lower a \<notin> set [''false'', ''f'', ''0'', ''no'']"
    unfolding parse_available_def by (simp_all split: if_split_asm)
  show ?thesis
    unfolding get_products_def Let_def
    apply (simp only: name_step category_step[OF assms(1)] assms(2) assms(3) nt nf option.case
          if_False sum.case)
    apply (simp only: abort_def HTTP_400_BAD_REQUEST_def sum.case)
    done
qed

lemma respond_abort: "status (respond (abort code m)) = code"
  by (simp add: abort_def)

lemma respond_listing: "status (respond (listing str ps)) = 200"
  by (simp add: listing_def)

lemma get_products_empty_name:
  assumes "args req ''name'' = Some []"
  shows "get_products str req s = get_products str (req\<lparr>args := (args req)(''name'' := None)\<rparr>) s"
proof -
  let ?r = "req\<lparr>args := (args req)(''name'' := None)\<rparr>"
  have o: "args ?r ''name'' = None" "args ?r ''category'' = args req ''category''"
    "args ?r ''available'' = args req ''available''" by simp_all
  show ?thesis
    unfolding get_products_def Let_def o assms option.case simp_thms if_True ..
qed

lemma get_products_empty_category:
  assumes "args req ''category'' = Some []"
  shows "get_products str req s = get_products str (req\<lparr>args := (args req)(''category'' := None)\<rparr>) s"
proof -
  let ?r = "req\<lparr>args := (args req)(''category'' := None)\<rparr>"
  have o: "args ?r ''category'' = None" "args ?r ''name'' = args req ''name''"
    "args ?r ''available'' = args req ''available''" by simp_all
  show ?thesis
    unfolding get_products_def Let_def o assms option.case simp_thms if_True ..
qed

lemma get_products_empty_available:
  assumes "args req ''available'' = Some []"
  shows "get_products str req s = get_products str (req\<lparr>args := (args req)(''available'' := None)\<rparr>) s"
proof -
  let ?r = "req\<lparr>args := (args req)(''available'' := None)\<rparr>"
  have o: "args ?r ''available'' = None" "args ?r ''name'' = args req ''name''"
    "args ?r ''category'' = args req ''category''" by simp_all
  show ?thesis
    unfolding get_products_def Let_def o assms option.case simp_thms if_True ..
qed

subsection \<open>Lookup in the store\<close>

lemma Product_find_None:
  "(Product_find i s = None) = (\<forall>p\<in>set (rows s). id_p p \<noteq> Some i)"
  by (auto simp: Product_find_def find_None_iff)

lemma Product_find_Some:
  "Product_find i s = Some p \<Longrightarrow> p \<in> set (rows s) \<and> id_p p = Some i"
  by (auto simp: Product_find_def find_Some_iff)

lemma Product_find_exists:
  assumes "\<exists>p\<in>set (rows s). id_p p = Some i"
  obtains p where "Product_find i s = Some p" and "p \<in> set (rows s)" and "id_p p = Some i"
proof (cases "Product_find i s")
  case None
  with assms show ?thesis by (simp add: Product_find_None)
next
  case (Some p)
  with Product_find_Some[OF Some] that show ?thesis by blast
qed

lemma find_distinct_ids:
  "distinct (map id_p xs) \<Longrightarrow> p \<in> set xs \<Longrightarrow> id_p p = Some i \<Longrightarrow>
     find (\<lambda>q. id_p q = Some i) xs = Some p"
proof (induction xs)
  case Nil
  then show ?case by simp
next
  case (Cons x xs)
  show ?case
  proof (cases "x = p")
    case True
    with Cons.prems show ?thesis by simp
  next
    case False
    with Cons.prems have "p \<in> set xs" by simp
    then have "id_p p \<in> id_p ` set xs" by (rule imageI)
    with Cons.prems have "id_p x \<noteq> id_p p" by auto
    with Cons \<open>p \<in> set xs\<close> show ?thesis by simp
  qed
qed

lemma Product_find_distinct:
  "distinct (map id_p (rows s)) \<Longrightarrow> p \<in> set (rows s) \<Longrightarrow> id_p p = Some i \<Longrightarrow>
     Product_find i s = Some p"
  by (simp add: Product_find_def find_distinct_ids)

subsection \<open>Deserialisation\<close>

lemma deserialize_raises:
  "deserialize Decimal i data = Inl e \<Longrightarrow> \<exists>v. e = DataValidationError v"
  by (auto simp: deserialize_def split: option.splits json.splits)

lemma deserialize_valid:
  assumes "data ''name'' = Some (JStr n)" and "data ''description'' = Some (JStr d)"
    and "data ''available'' = Some (JBool a)"
    and "data ''price'' = Some v" and "Decimal v = Some pr"
    and "data ''category'' = Some (JStr c)" and "getattr_Category c = Some cat"
  shows "deserialize Decimal i data =
           Inr \<lparr>id_p = i, name = n, description = d, price = pr, available = a, category = cat\<rparr>"
  using assms by (simp add: deserialize_def)

lemma deserialize_Inr_keys:
  assumes "deserialize Decimal i data = Inr p"
  shows "data ''name'' \<noteq> None \<and> data ''description'' \<noteq> None \<and> data ''price'' \<noteq> None
       \<and> data ''available'' \<noteq> None \<and> data ''category'' \<noteq> None"
  using assms by (auto simp: deserialize_def split: option.splits json.splits)

lemma deserialize_Inr_id:
  assumes "deserialize Decimal i data = Inr p"
  shows "id_p p = i"
  using assms by (auto simp: deserialize_def split: option.splits json.splits)

lemma deserialize_missing:
  assumes "k \<in> {''name'', ''description'', ''price'', ''available'', ''category''}"
    and "data k = None"
  shows "\<exists>v. deserialize Decimal i data = Inl (DataValidationError v)"
proof (cases "deserialize Decimal i data")
  case (Inl e)
  with deserialize_raises[OF Inl] show ?thesis by blast
next
  case (Inr p)
  from deserialize_Inr_keys[OF Inr] assms show ?thesis by auto
qed

subsection \<open>Media type, update and create\<close>

lemma check_content_type_ok:
  "headers req ''Content-Type'' = Some ct \<Longrightarrow> check_content_type ct req = Inr ()"
  by (simp add: check_content_type_def)

lemma check_content_type_bad:
  "headers req ''Content-Type'' \<noteq> Some ct \<Longrightarrow>
     check_content_type ct req = abort 415 (Content_Type_must_be ct)"
  by (simp add: check_content_type_def HTTP_415_UNSUPPORTED_MEDIA_TYPE_def split: option.split)

lemma update_product_missing:
  assumes "Product_find product_id s = None"
  shows "update_product Decimal str product_id req s =
           (abort 404 (Product_not_found_for_id product_id), s)"
  using assms by (simp add: update_product_def HTTP_404_NOT_FOUND_def)

lemma update_product_invalid:
  assumes "Product_find product_id s = Some q"
    and "headers req ''Content-Type'' = Some ''application/json''"
    and "deserialize Decimal (id_p q) (get_json req) = Inl (DataValidationError v)"
  shows "update_product Decimal str product_id req s = (Inl (DataValidationError v), s)"
  using assms by (simp add: update_product_def check_content_type_ok)

lemma update_product_valid:
  assumes "Product_find product_id s = Some q"
    and "headers req ''Content-Type'' = Some ''application/json''"
    and "deserialize Decimal (id_p q) (get_json req) = Inr new"
  shows "update_product Decimal str product_id req s =
           (Inr \<lparr>status = 200, body = Body_dict (serialize str new), response_headers = []\<rparr>,
            Product_update new s)"
  using assms by (simp add: update_product_def check_content_type_ok HTTP_200_OK_def)

lemma find_after_update:
  assumes "\<exists>p\<in>set xs. id_p p = Some i" and "id_p new = Some i"
  shows "find (\<lambda>p. id_p p = Some i) (map (\<lambda>q. if id_p q = Some i then new else q) xs) = Some new"
  using assms by (induction xs) auto

lemma find_append_new:
  assumes "\<forall>p\<in>set xs. \<not> P p" and "P y"
  shows "find P (xs @ [y]) = Some y"
  using assms by (induction xs) auto

lemma store_ok_fresh: "store_ok s \<Longrightarrow> \<forall>p\<in>set (rows s). id_p p \<noteq> Some (next_id s)"
  by (auto simp: store_ok_def split: option.splits)

lemma create_products_valid:
  assumes "headers req ''Content-Type'' = Some ''application/json''"
    and "deserialize Decimal None (get_json req) = Inr p"
  shows "create_products Decimal str req s =
           (Inr \<lparr>status = 201,
                 body = Body_dict (serialize str (p\<lparr>id_p := Some (next_id s)\<rparr>)),
                 response_headers = [(''Location'', url_for_get_product (Some (next_id s)))]\<rparr>,
            s\<lparr>rows := rows s @ [p\<lparr>id_p := Some (next_id s)\<rparr>], next_id := Suc (next_id s)\<rparr>)"
  using assms
  by (simp add: create_products_def check_content_type_ok Product_create_def Let_def
        HTTP_201_CREATED_def)

lemma create_products_invalid:
  assumes "headers req ''Content-Type'' = Some ''application/json''"
    and "deserialize Decimal None (get_json req) = Inl e"
  shows "create_products Decimal str req s = (Inl e, s)"
  using assms by (simp add: create_products_def check_content_type_ok)

text \<open>
  The three \<^verbatim>\<open>except\<close> clauses of the update are never entered, since deserialisation
  raises nothing but validation errors. Were one entered with a built-in exception,
  which has no attribute \<^verbatim>\<open>message\<close>, the answer would be a server error.
\<close>

lemma except_clause_without_message:
  "status (respond (abort_with_message_of None)) = 500"
  by (simp add: abort_with_message_of_def HTTP_500_INTERNAL_SERVER_ERROR_def)

lemma except_clause_with_message:
  "status (respond (abort_with_message_of (Some m))) = 400"
  by (simp add: abort_with_message_of_def abort_def HTTP_400_BAD_REQUEST_def)

subsection \<open>The handlers keep the counter ahead\<close>

lemma store_ok_create:
  "store_ok s \<Longrightarrow> store_ok (snd (create_products Decimal str req s))"
  by (auto simp: create_products_def Product_create_def store_ok_def Let_def less_Suc_eq
        split: sum.splits option.splits)

lemma store_ok_delete:
  "store_ok s \<Longrightarrow> store_ok (snd (delete_product product_id s))"
  by (auto simp: delete_product_def Product_delete_def store_ok_def split: option.splits)

lemma store_ok_replace:
  assumes "store_ok s" and "product_id < next_id s" and "id_p p = Some product_id"
  shows "store_ok (s\<lparr>rows := map (\<lambda>q. if id_p q = Some product_id then p else q) (rows s)\<rparr>)"
  unfolding store_ok_def
proof
  let ?s = "s\<lparr>rows := map (\<lambda>q. if id_p q = Some product_id then p else q) (rows s)\<rparr>"
  fix r
  assume "r \<in> set (rows ?s)"
  then obtain q where q: "q \<in> set (rows s)"
      and r: "r = (if id_p q = Some product_id then p else q)"
    by auto
  have n: "next_id ?s = next_id s" by simp
  have "case id_p r of None \<Rightarrow> False | Some i \<Rightarrow> i < next_id s"
  proof (cases "id_p q = Some product_id")
    case True
    with r have "r = p" by simp
    with assms(2,3) show ?thesis by simp
  next
    case False
    with r have "r = q" by simp
    with q assms(1) show ?thesis by (simp add: store_ok_def)
  qed
  then show "case id_p r of None \<Rightarrow> False | Some i \<Rightarrow> i < next_id ?s"
    unfolding n .
qed

lemma store_ok_update:
  assumes ok: "store_ok s"
  shows "store_ok (snd (update_product Decimal str product_id req s))"
proof (cases "Product_find product_id s")
  case None
  with ok show ?thesis by (simp add: update_product_missing)
next
  case (Some q)
  from Product_find_Some[OF Some] ok have lt: "product_id < next_id s"
    by (auto simp: store_ok_def split: option.splits)
  show ?thesis
  proof (cases "check_content_type ''application/json'' req")
    case (Inl e)
    with Some ok show ?thesis by (simp add: update_product_def)
  next
    case (Inr u)
    show ?thesis
    proof (cases "deserialize Decimal (id_p q) (get_json req)")
      case (Inl e)
      then obtain v where "e = DataValidationError v" using deserialize_raises by blast
      with Inl Some Inr ok show ?thesis by (simp add: update_product_def)
    next
      case new: (Inr p)
      from deserialize_Inr_id[OF new] Product_find_Some[OF Some] have i: "id_p p = Some product_id"
        by simp
      with new Some Inr have "snd (update_product Decimal str product_id req s) =
          s\<lparr>rows := map (\<lambda>q. if id_p q = Some product_id then p else q) (rows s)\<rparr>"
        by (simp add: update_product_def Product_update_def)
      with store_ok_replace[OF ok lt i] show ?thesis by simp
    qed
  qed
qed

section \<open>The claims\<close>

text \<open>
  Claim C1. An update names a stored product and has the JSON media type. When the
  payload lacks one of the fields \<open>name\<close>, \<open>description\<close>, \<open>price\<close>, \<open>available\<close>,
  \<open>category\<close>, or when deserialisation fails for any other reason (a field of the
  wrong type), the answer has status 400, and the store is as it was.
\<close>

theorem update_product_validation_failure:
  assumes "\<exists>p\<in>set (rows s). id_p p = Some product_id"
    and "headers req ''Content-Type'' = Some ''application/json''"
  shows "(k \<in> {''name'', ''description'', ''price'', ''available'', ''category''}
            \<and> get_json req k = None \<longrightarrow>
          status (respond (fst (update_product Decimal str product_id req s))) = 400
          \<and> snd (update_product Decimal str product_id req s) = s)
       \<and> (deserialize Decimal (Some product_id) (get_json req) = Inl e \<longrightarrow>
          status (respond (fst (update_product Decimal str product_id req s))) = 400
          \<and> snd (update_product Decimal str product_id req s) = s)"
proof -
  from assms(1) obtain q where q: "Product_find product_id s = Some q" "id_p q = Some product_id"
    by (rule Product_find_exists)
  have r: "status (respond (fst (update_product Decimal str product_id req s))) = 400
      \<and> snd (update_product Decimal str product_id req s) = s"
    if "deserialize Decimal (Some product_id) (get_json req) = Inl (DataValidationError v)" for v
    using update_product_invalid[OF q(1) assms(2), of Decimal v str] that q(2)
    by (simp add: HTTP_400_BAD_REQUEST_def)
  show ?thesis
  proof (intro conjI impI)
    assume "k \<in> {''name'', ''description'', ''price'', ''available'', ''category''}
            \<and> get_json req k = None"
    then obtain v where "deserialize Decimal (Some product_id) (get_json req) = Inl (DataValidationError v)"
      using deserialize_missing[of k "get_json req" Decimal "Some product_id"] by blast
    from r[OF this]
    show "status (respond (fst (update_product Decimal str product_id req s))) = 400"
      and "snd (update_product Decimal str product_id req s) = s" by blast+
  next
    assume d: "deserialize Decimal (Some product_id) (get_json req) = Inl e"
    then obtain v where "e = DataValidationError v" using deserialize_raises by blast
    with d r[of v]
    show "status (respond (fst (update_product Decimal str product_id req s))) = 400"
      and "snd (update_product Decimal str product_id req s) = s" by blast+
  qed
qed

theorem update_product_validation_failure_witness:
  "status (respond (fst (update_product Decimal_text str_text 1 (json_request no_name) catalogue))) = 400
   \<and> snd (update_product Decimal_text str_text 1 (json_request no_name) catalogue) = catalogue
   \<and> status (respond (fst (update_product Decimal_text str_text 1 (json_request bad_category) catalogue))) = 400
   \<and> snd (update_product Decimal_text str_text 1 (json_request bad_category) catalogue) = catalogue"
proof -
  have e: "\<exists>p\<in>set (rows catalogue). id_p p = Some 1"
    by (simp add: example_defs)
  have h: "headers (json_request kvs) ''Content-Type'' = Some ''application/json''" for kvs
    by (simp add: json_request_def)
  have k: "''name'' \<in> {''name'', ''description'', ''price'', ''available'', ''category''}
      \<and> get_json (json_request no_name) ''name'' = None"
    by (simp add: json_request_def no_name_def)
  have d: "deserialize Decimal_text (Some 1) (get_json (json_request bad_category)) =
      Inl (DataValidationError (Invalid_type ''category'' (JInt 1000)))"
    by (simp add: deserialize_def json_request_def bad_category_def Decimal_text_def)
  from k update_product_validation_failure[OF e h, where k = "''name''" and Decimal = Decimal_text and str = str_text]
  have 1: "status (respond (fst (update_product Decimal_text str_text 1 (json_request no_name) catalogue))) = 400
   \<and> snd (update_product Decimal_text str_text 1 (json_request no_name) catalogue) = catalogue"
    by blast
  from d update_product_validation_failure[OF e h, where Decimal = Decimal_text and str = str_text]
  have 2: "status (respond (fst (update_product Decimal_text str_text 1 (json_request bad_category) catalogue))) = 400
   \<and> snd (update_product Decimal_text str_text 1 (json_request bad_category) catalogue) = catalogue"
    by blast
  from 1 2 show ?thesis by blast
qed

text \<open>
  Claim C2. A listing request carries a non-empty \<open>available\<close> parameter. When the
  token in lower case is one of \<open>true\<close>, \<open>t\<close>, \<open>1\<close>, \<open>yes\<close>, the answer is 200 with
  the products that are available, among those the other criteria leave; when it is
  one of \<open>false\<close>, \<open>f\<close>, \<open>0\<close>, \<open>no\<close>, with those that are not available. For every
  other token the answer has status 400. The two listings presuppose that the request
  is not already rejected for its category; the rejection of the token does not.
\<close>

theorem get_products_available_tokens:
  assumes "args req ''available'' = Some a" and "a \<noteq> []"
  shows "(lower a \<in> {''true'', ''t'', ''1'', ''yes''} \<and> category_ok req \<longrightarrow>
            get_products str req s =
              Inr \<lparr>status = 200,
                   body = Body_list (map (serialize str)
                     (filter (\<lambda>p. name_matches req p \<and> category_matches req p \<and> available p = True)
                        (rows s))),
                   response_headers = []\<rparr>)
       \<and> (lower a \<in> {''false'', ''f'', ''0'', ''no''} \<and> category_ok req \<longrightarrow>
            get_products str req s =
              Inr \<lparr>status = 200,
                   body = Body_list (map (serialize str)
                     (filter (\<lambda>p. name_matches req p \<and> category_matches req p \<and> available p = False)
                        (rows s))),
                   response_headers = []\<rparr>)
       \<and> (lower a \<notin> {''true'', ''t'', ''1'', ''yes'', ''false'', ''f'', ''0'', ''no''} \<longrightarrow>
            status (respond (get_products str req s)) = 400)"
proof (intro conjI impI)
  assume h: "lower a \<in> {''true'', ''t'', ''1'', ''yes''} \<and> category_ok req"
  then have pa: "parse_available a = Some True" by (simp only: parse_available_True)
  with assms have ok: "available_ok req" by (simp add: available_ok_def)
  have m: "available_matches req = (\<lambda>p. available p = True)"
    using assms pa by (auto simp: available_matches_eq)
  from h ok show "get_products str req s =
              Inr \<lparr>status = 200,
                   body = Body_list (map (serialize str)
                     (filter (\<lambda>p. name_matches req p \<and> category_matches req p \<and> available p = True)
                        (rows s))),
                   response_headers = []\<rparr>"
    by (simp only: get_products_valid m listing_def)
next
  assume h: "lower a \<in> {''false'', ''f'', ''0'', ''no''} \<and> category_ok req"
  then have pa: "parse_available a = Some False" by (simp only: parse_available_False)
  with assms have ok: "available_ok req" by (simp add: available_ok_def)
  have m: "available_matches req = (\<lambda>p. available p = False)"
    using assms pa by (auto simp: available_matches_eq)
  from h ok show "get_products str req s =
              Inr \<lparr>status = 200,
                   body = Body_list (map (serialize str)
                     (filter (\<lambda>p. name_matches req p \<and> category_matches req p \<and> available p = False)
                        (rows s))),
                   response_headers = []\<rparr>"
    by (simp only: get_products_valid m listing_def)
next
  assume "lower a \<notin> {''true'', ''t'', ''1'', ''yes'', ''false'', ''f'', ''0'', ''no''}"
  then have pn: "parse_available a = None" by (simp add: parse_available_None)
  show "status (respond (get_products str req s)) = 400"
  proof (cases "category_ok req")
    case True
    then show ?thesis
      by (simp only: get_products_bad_available[OF True assms pn] respond_abort)
  next
    case False
    then obtain c where "args req ''category'' = Some c" "c \<noteq> []" "getattr_Category (upper c) = None"
      by (auto simp: category_ok_def split: option.splits)
    then have "get_products str req s = abort 400 (Invalid_category c)"
      by (rule get_products_bad_category)
    then show ?thesis
      by (simp only: respond_abort)
  qed
qed

theorem get_products_available_tokens_witness:
  "get_products str_text (query [(''available'', ''YES'')]) catalogue =
     Inr \<lparr>status = 200, body = Body_list [serialize str_text fedora], response_headers = []\<rparr>
   \<and> get_products str_text (query [(''available'', ''F'')]) catalogue =
     Inr \<lparr>status = 200, body = Body_list [serialize str_text apple, serialize str_text beret],
          response_headers = []\<rparr>
   \<and> status (respond (get_products str_text (query [(''available'', ''maybe'')]) catalogue)) = 400"
proof -
  have t: "args (query [(''available'', ''YES'')]) ''available'' = Some ''YES''"
    and f: "args (query [(''available'', ''F'')]) ''available'' = Some ''F''"
    and m: "args (query [(''available'', ''maybe'')]) ''available'' = Some ''maybe''"
    by (simp_all add: query_def)
  have ne: "''YES'' \<noteq> []" "''F'' \<noteq> []" "''maybe'' \<noteq> []" by simp_all
  show ?thesis
    using get_products_available_tokens[OF t ne(1), of str_text catalogue] get_products_available_tokens[OF f ne(2), of str_text catalogue]
      get_products_available_tokens[OF m ne(3), of str_text catalogue]
    by (simp add: criteria_defs example_defs text_defs)
qed

text \<open>
  Claim C3. A listing request carries a non-empty \<open>category\<close> parameter. The token is
  put in upper case before the lookup, by the conversion of the language, so that a
  token written with U+017F for the last letter of \<open>cloths\<close> is a member name too.
  When the converted token is the name of a member, the answer is 200 with the
  products of that category, among those the other criteria leave (the availability
  token, if there is one, being readable). When it is the name of no member, the
  handler aborts with 400: the answer is never an empty listing.
\<close>

theorem get_products_category_lookup:
  assumes "args req ''category'' = Some c" and "c \<noteq> []"
  shows "(upper c = Category_name cat \<and> available_ok req \<longrightarrow>
            get_products str req s =
              Inr \<lparr>status = 200,
                   body = Body_list (map (serialize str)
                     (filter (\<lambda>p. name_matches req p \<and> category p = cat \<and> available_matches req p)
                        (rows s))),
                   response_headers = []\<rparr>)
       \<and> ((\<forall>m. upper c \<noteq> Category_name m) \<longrightarrow>
            get_products str req s = abort 400 (Invalid_category c)
            \<and> status (respond (get_products str req s)) = 400)"
proof (intro conjI impI)
  assume h: "upper c = Category_name cat \<and> available_ok req"
  then have g: "getattr_Category (upper c) = Some cat" by (simp only: getattr_Category_iff)
  with assms have ok: "category_ok req" by (simp add: category_ok_def)
  have m: "category_matches req = (\<lambda>p. category p = cat)"
    using assms g by (auto simp: category_matches_eq)
  from h ok show "get_products str req s =
              Inr \<lparr>status = 200,
                   body = Body_list (map (serialize str)
                     (filter (\<lambda>p. name_matches req p \<and> category p = cat \<and> available_matches req p)
                        (rows s))),
                   response_headers = []\<rparr>"
    by (simp only: get_products_valid m listing_def)
next
  assume "\<forall>m. upper c \<noteq> Category_name m"
  then have g: "getattr_Category (upper c) = None" by (simp add: getattr_Category_None)
  show "get_products str req s = abort 400 (Invalid_category c)"
    by (rule get_products_bad_category[OF assms g])
  then show "status (respond (get_products str req s)) = 400"
    by (simp only: respond_abort)
qed

theorem get_products_category_lookup_witness:
  "get_products str_text (query [(''category'', ''cloths'')]) catalogue =
     Inr \<lparr>status = 200, body = Body_list [serialize str_text fedora, serialize str_text beret],
          response_headers = []\<rparr>
   \<and> upper (''cloth'' @ [CHR 0xC5, CHR 0xBF]) = ''CLOTHS''
   \<and> get_products str_text (query [(''category'', ''cloth'' @ [CHR 0xC5, CHR 0xBF])]) catalogue =
     Inr \<lparr>status = 200, body = Body_list [serialize str_text fedora, serialize str_text beret],
          response_headers = []\<rparr>
   \<and> (\<forall>m. upper ''NONEXISTENT'' \<noteq> Category_name m)
   \<and> get_products str_text (query [(''category'', ''NONEXISTENT'')]) catalogue =
       abort 400 (Invalid_category ''NONEXISTENT'')
   \<and> status (respond (get_products str_text (query [(''category'', ''NONEXISTENT'')]) catalogue)) = 400"
proof -
  let ?g = "query [(''category'', ''cloths'')]" and ?b = "query [(''category'', ''NONEXISTENT'')]"
    and ?l = "query [(''category'', ''cloth'' @ [CHR 0xC5, CHR 0xBF])]"
  have g: "args ?g ''category'' = Some ''cloths''"
    and b: "args ?b ''category'' = Some ''NONEXISTENT''"
    and l: "args ?l ''category'' = Some (''cloth'' @ [CHR 0xC5, CHR 0xBF])"
    by (simp_all add: query_def)
  have ne: "''cloths'' \<noteq> []" "''NONEXISTENT'' \<noteq> []" "''cloth'' @ [CHR 0xC5, CHR 0xBF] \<noteq> []"
    by simp_all
  have long_s: "upper (''cloth'' @ [CHR 0xC5, CHR 0xBF]) = ''CLOTHS''"
    by (simp add: text_defs)
  have member: "upper ''cloths'' = Category_name CLOTHS \<and> available_ok ?g"
    by (simp add: text_defs available_ok_def query_def)
  have member_l: "upper (''cloth'' @ [CHR 0xC5, CHR 0xBF]) = Category_name CLOTHS \<and> available_ok ?l"
    by (simp add: text_defs available_ok_def query_def)
  have none: "\<forall>m. upper ''NONEXISTENT'' \<noteq> Category_name m"
  proof
    fix m show "upper ''NONEXISTENT'' \<noteq> Category_name m"
      by (cases m) (simp_all add: text_defs)
  qed
  have "get_products str_text ?g catalogue =
          Inr \<lparr>status = 200,
               body = Body_list (map (serialize str_text)
                 (filter (\<lambda>p. name_matches ?g p \<and> category p = CLOTHS \<and> available_matches ?g p)
                    (rows catalogue))),
               response_headers = []\<rparr>"
    using get_products_category_lookup[OF g ne(1), where cat = CLOTHS and str = str_text and s = catalogue] member
    by blast
  then have 1: "get_products str_text ?g catalogue =
     Inr \<lparr>status = 200, body = Body_list [serialize str_text fedora, serialize str_text beret],
          response_headers = []\<rparr>"
    by (simp add: criteria_defs example_defs)
  have "get_products str_text ?l catalogue =
          Inr \<lparr>status = 200,
               body = Body_list (map (serialize str_text)
                 (filter (\<lambda>p. name_matches ?l p \<and> category p = CLOTHS \<and> available_matches ?l p)
                    (rows catalogue))),
               response_headers = []\<rparr>"
    using get_products_category_lookup[OF l ne(3), where cat = CLOTHS and str = str_text and s = catalogue] member_l
    by blast
  then have 3: "get_products str_text ?l catalogue =
     Inr \<lparr>status = 200, body = Body_list [serialize str_text fedora, serialize str_text beret],
          response_headers = []\<rparr>"
    by (simp add: criteria_defs example_defs)
  have 2: "get_products str_text ?b catalogue = abort 400 (Invalid_category ''NONEXISTENT'')
      \<and> status (respond (get_products str_text ?b catalogue)) = 400"
    using get_products_category_lookup[OF b ne(2), where str = str_text and s = catalogue] none by blast
  from 1 long_s 3 none 2 show ?thesis by blast
qed

text \<open>
  Claim C4. When the criteria of a listing request are valid, the answer is 200 with
  exactly the stored products, in the order of the store, that meet every criterion
  the request supplies; the name criterion is equality of the whole text.
\<close>

theorem get_products_filter_conjunction:
  assumes "category_ok req" and "available_ok req"
  shows "get_products str req s =
           Inr \<lparr>status = 200,
                body = Body_list (map (serialize str)
                  (filter (\<lambda>p. name_matches req p \<and> category_matches req p \<and> available_matches req p)
                     (rows s))),
                response_headers = []\<rparr>"
  using get_products_valid[OF assms] by (simp only: listing_def)

theorem get_products_filter_conjunction_witness:
  "category_ok (query [(''name'', ''Fedora''), (''category'', ''cloths''), (''available'', ''Yes'')])
   \<and> available_ok (query [(''name'', ''Fedora''), (''category'', ''cloths''), (''available'', ''Yes'')])
   \<and> get_products str_text
        (query [(''name'', ''Fedora''), (''category'', ''cloths''), (''available'', ''Yes'')]) catalogue =
      Inr \<lparr>status = 200, body = Body_list [serialize str_text fedora], response_headers = []\<rparr>
   \<and> get_products str_text (query [(''name'', ''Fed'')]) catalogue =
      Inr \<lparr>status = 200, body = Body_list [], response_headers = []\<rparr>"
proof -
  let ?r = "query [(''name'', ''Fedora''), (''category'', ''cloths''), (''available'', ''Yes'')]"
  have c: "category_ok ?r" by (simp add: category_ok_def query_def text_defs)
  have a: "available_ok ?r" by (simp add: available_ok_def parse_available_def query_def text_defs)
  have c': "category_ok (query [(''name'', ''Fed'')])" by (simp add: category_ok_def query_def)
  have a': "available_ok (query [(''name'', ''Fed'')])" by (simp add: available_ok_def query_def)
  show ?thesis
    using c a get_products_filter_conjunction[OF c a, of str_text catalogue] get_products_filter_conjunction[OF c' a', of str_text catalogue]
    by (simp add: criteria_defs example_defs text_defs)
qed

text \<open>
  Claim C5. A listing request without any query parameter is answered with 200 and
  the serialisation of every stored product. When the criteria are valid and no
  stored product meets them all, the answer is 200 with the empty sequence.
\<close>

theorem get_products_full_listing_or_empty:
  "(args req = Map.empty \<longrightarrow>
      get_products str req s =
        Inr \<lparr>status = 200, body = Body_list (map (serialize str) (rows s)), response_headers = []\<rparr>)
   \<and> (category_ok req \<and> available_ok req
        \<and> (\<forall>p\<in>set (rows s). \<not> (name_matches req p \<and> category_matches req p \<and> available_matches req p))
      \<longrightarrow> get_products str req s =
            Inr \<lparr>status = 200, body = Body_list [], response_headers = []\<rparr>)"
proof (intro conjI impI)
  assume e: "args req = Map.empty"
  then have ok: "category_ok req" "available_ok req"
    by (simp_all add: category_ok_def available_ok_def)
  from e have "filter (\<lambda>p. name_matches req p \<and> category_matches req p \<and> available_matches req p) (rows s) = rows s"
    by (simp add: name_matches_def category_matches_def available_matches_def)
  with get_products_valid[OF ok, of str s] show "get_products str req s =
        Inr \<lparr>status = 200, body = Body_list (map (serialize str) (rows s)), response_headers = []\<rparr>"
    by (simp only: listing_def)
next
  assume h: "category_ok req \<and> available_ok req
        \<and> (\<forall>p\<in>set (rows s). \<not> (name_matches req p \<and> category_matches req p \<and> available_matches req p))"
  then have "filter (\<lambda>p. name_matches req p \<and> category_matches req p \<and> available_matches req p) (rows s) = []"
    by (simp add: filter_empty_conv)
  with h get_products_valid[of req str s] show "get_products str req s =
            Inr \<lparr>status = 200, body = Body_list [], response_headers = []\<rparr>"
    by (simp only: listing_def list.map)
qed

theorem get_products_full_listing_or_empty_witness:
  "get_products str_text (query []) catalogue =
     Inr \<lparr>status = 200,
          body = Body_list [serialize str_text fedora, serialize str_text apple, serialize str_text beret],
          response_headers = []\<rparr>
   \<and> get_products str_text (query [(''name'', ''Apple''), (''available'', ''true'')]) catalogue =
     Inr \<lparr>status = 200, body = Body_list [], response_headers = []\<rparr>"
proof -
  have e: "args (query []) = Map.empty" by (simp add: query_def)
  let ?r = "query [(''name'', ''Apple''), (''available'', ''true'')]"
  have h: "category_ok ?r \<and> available_ok ?r
      \<and> (\<forall>p\<in>set (rows catalogue). \<not> (name_matches ?r p \<and> category_matches ?r p \<and> available_matches ?r p))"
    by (simp add: criteria_defs example_defs text_defs)
  show ?thesis
    using e h get_products_full_listing_or_empty[of "query []" str_text catalogue] get_products_full_listing_or_empty[of ?r str_text catalogue]
    by (simp add: example_defs)
qed

text \<open>
  Claim C6. A create request whose \<open>Content-Type\<close> header is missing or differs from
  \<open>application/json\<close> is aborted with 415 and the store is as it was. With that header
  and a payload that deserialises, the answer is 201 with the serialisation of the
  new entity, which carries the identifier the store assigned, and a \<open>Location\<close>
  header with the address of the read endpoint of that identifier; in a store whose
  counter is ahead of its identifiers, reading that identifier afterwards gives 200
  with the same serialisation.
\<close>

theorem create_products_media_type:
  "(headers req ''Content-Type'' \<noteq> Some ''application/json'' \<longrightarrow>
      create_products Decimal str req s =
        (abort 415 (Content_Type_must_be ''application/json''), s)
      \<and> status (respond (fst (create_products Decimal str req s))) = 415)
   \<and> (headers req ''Content-Type'' = Some ''application/json''
        \<and> deserialize Decimal None (get_json req) = Inr p \<longrightarrow>
      create_products Decimal str req s =
        (Inr \<lparr>status = 201,
              body = Body_dict (serialize str (p\<lparr>id_p := Some (next_id s)\<rparr>)),
              response_headers = [(''Location'', url_for_get_product (Some (next_id s)))]\<rparr>,
         s\<lparr>rows := rows s @ [p\<lparr>id_p := Some (next_id s)\<rparr>], next_id := Suc (next_id s)\<rparr>)
      \<and> (store_ok s \<longrightarrow>
           get_product str (next_id s) (snd (create_products Decimal str req s)) =
             Inr \<lparr>status = 200,
                  body = Body_dict (serialize str (p\<lparr>id_p := Some (next_id s)\<rparr>)),
                  response_headers = []\<rparr>))"
proof (intro conjI impI)
  assume "headers req ''Content-Type'' \<noteq> Some ''application/json''"
  then have "check_content_type ''application/json'' req =
      abort 415 (Content_Type_must_be ''application/json'')"
    by (rule check_content_type_bad)
  then show c: "create_products Decimal str req s =
      (abort 415 (Content_Type_must_be ''application/json''), s)"
    by (simp add: create_products_def abort_def)
  show "status (respond (fst (create_products Decimal str req s))) = 415"
    by (simp only: c fst_conv respond_abort)
next
  assume h: "headers req ''Content-Type'' = Some ''application/json''
        \<and> deserialize Decimal None (get_json req) = Inr p"
  then show c: "create_products Decimal str req s =
        (Inr \<lparr>status = 201,
              body = Body_dict (serialize str (p\<lparr>id_p := Some (next_id s)\<rparr>)),
              response_headers = [(''Location'', url_for_get_product (Some (next_id s)))]\<rparr>,
         s\<lparr>rows := rows s @ [p\<lparr>id_p := Some (next_id s)\<rparr>], next_id := Suc (next_id s)\<rparr>)"
    by (simp only: create_products_valid)
  assume "store_ok s"
  then have "\<forall>q\<in>set (rows s). \<not> id_p q = Some (next_id s)" by (rule store_ok_fresh)
  then have "Product_find (next_id s) (snd (create_products Decimal str req s)) =
      Some (p\<lparr>id_p := Some (next_id s)\<rparr>)"
    by (simp add: c Product_find_def find_append_new)
  then show "get_product str (next_id s) (snd (create_products Decimal str req s)) =
             Inr \<lparr>status = 200,
                  body = Body_dict (serialize str (p\<lparr>id_p := Some (next_id s)\<rparr>)),
                  response_headers = []\<rparr>"
    by (simp add: get_product_def HTTP_200_OK_def)
qed

theorem create_products_media_type_witness:
  "create_products Decimal_text str_text (query []) catalogue =
     (abort 415 (Content_Type_must_be ''application/json''), catalogue)
   \<and> status (respond (fst (create_products Decimal_text str_text plain_text_request catalogue))) = 415
   \<and> snd (create_products Decimal_text str_text plain_text_request catalogue) = catalogue
   \<and> create_products Decimal_text str_text (json_request new_tool) catalogue =
       (Inr \<lparr>status = 201,
             body = Body_dict (serialize str_text
               \<lparr>id_p = Some 4, name = ''Hammer'', description = ''A claw hammer'',
                price = ''111.11'', available = True, category = TOOLS\<rparr>),
             response_headers = [(''Location'', url_for_get_product (Some 4))]\<rparr>,
        \<lparr>rows = [fedora, apple, beret,
                 \<lparr>id_p = Some 4, name = ''Hammer'', description = ''A claw hammer'',
                  price = ''111.11'', available = True, category = TOOLS\<rparr>],
         next_id = 5\<rparr>)
   \<and> get_product str_text 4
        (snd (create_products Decimal_text str_text (json_request new_tool) catalogue)) =
       Inr \<lparr>status = 200,
            body = Body_dict (serialize str_text
              \<lparr>id_p = Some 4, name = ''Hammer'', description = ''A claw hammer'',
               price = ''111.11'', available = True, category = TOOLS\<rparr>),
            response_headers = []\<rparr>"
proof -
  let ?new = "\<lparr>id_p = None, name = ''Hammer'', description = ''A claw hammer'',
               price = ''111.11'', available = True, category = TOOLS\<rparr>"
  have n: "headers (query []) ''Content-Type'' \<noteq> Some ''application/json''"
    by (simp add: query_def)
  have w: "headers plain_text_request ''Content-Type'' \<noteq> Some ''application/json''"
    by (simp add: plain_text_request_def)
  have v: "headers (json_request new_tool) ''Content-Type'' = Some ''application/json''
      \<and> deserialize Decimal_text None (get_json (json_request new_tool)) = Inr ?new"
    by (simp add: json_request_def new_tool_def deserialize_def Decimal_text_def
          getattr_Category_def)
  have ok: "store_ok catalogue"
    by (simp add: store_ok_def example_defs)
  from n create_products_media_type[where req = "query []" and Decimal = Decimal_text and str = str_text and s = catalogue]
  have 1: "create_products Decimal_text str_text (query []) catalogue =
     (abort 415 (Content_Type_must_be ''application/json''), catalogue)"
    by blast
  from w create_products_media_type[where req = plain_text_request and Decimal = Decimal_text and str = str_text
      and s = catalogue]
  have 2: "create_products Decimal_text str_text plain_text_request catalogue =
     (abort 415 (Content_Type_must_be ''application/json''), catalogue)
     \<and> status (respond (fst (create_products Decimal_text str_text plain_text_request catalogue))) = 415"
    by blast
  from v ok create_products_media_type[where req = "json_request new_tool" and Decimal = Decimal_text and str = str_text
      and s = catalogue and p = ?new]
  have 3: "create_products Decimal_text str_text (json_request new_tool) catalogue =
        (Inr \<lparr>status = 201,
              body = Body_dict (serialize str_text (?new\<lparr>id_p := Some (next_id catalogue)\<rparr>)),
              response_headers = [(''Location'', url_for_get_product (Some (next_id catalogue)))]\<rparr>,
         catalogue\<lparr>rows := rows catalogue @ [?new\<lparr>id_p := Some (next_id catalogue)\<rparr>],
           next_id := Suc (next_id catalogue)\<rparr>)
      \<and> get_product str_text (next_id catalogue)
           (snd (create_products Decimal_text str_text (json_request new_tool) catalogue)) =
             Inr \<lparr>status = 200,
                  body = Body_dict (serialize str_text (?new\<lparr>id_p := Some (next_id catalogue)\<rparr>)),
                  response_headers = []\<rparr>"
    by blast
  have e1: "?new\<lparr>id_p := Some 4\<rparr> =
      \<lparr>id_p = Some 4, name = ''Hammer'', description = ''A claw hammer'',
       price = ''111.11'', available = True, category = TOOLS\<rparr>"
    and e2: "next_id catalogue = 4"
    and e3: "catalogue\<lparr>rows := rows catalogue @
          [\<lparr>id_p = Some 4, name = ''Hammer'', description = ''A claw hammer'',
            price = ''111.11'', available = True, category = TOOLS\<rparr>],
        next_id := Suc 4\<rparr> =
      \<lparr>rows = [fedora, apple, beret,
                 \<lparr>id_p = Some 4, name = ''Hammer'', description = ''A claw hammer'',
                  price = ''111.11'', available = True, category = TOOLS\<rparr>],
         next_id = 5\<rparr>"
    by (simp_all add: catalogue_def)
  from 2 have unchanged: "snd (create_products Decimal_text str_text plain_text_request catalogue) = catalogue"
    by simp
  from 1 2 unchanged 3[unfolded e1 e2 e3] show ?thesis by blast
qed

text \<open>
  Claim C7. Reading an identifier that a stored product has is answered with 200 and
  the serialisation of a stored product with that identifier: of the product itself,
  identifiers being distinct. Reading an identifier that no stored product has is
  aborted with 404.
\<close>

theorem get_product_found_or_missing:
  "((\<exists>p\<in>set (rows s). id_p p = Some product_id) \<longrightarrow>
      (\<exists>p\<in>set (rows s). id_p p = Some product_id \<and>
         get_product str product_id s =
           Inr \<lparr>status = 200, body = Body_dict (serialize str p), response_headers = []\<rparr>))
   \<and> (distinct (map id_p (rows s)) \<and> p \<in> set (rows s) \<and> id_p p = Some product_id \<longrightarrow>
         get_product str product_id s =
           Inr \<lparr>status = 200, body = Body_dict (serialize str p), response_headers = []\<rparr>)
   \<and> ((\<forall>p\<in>set (rows s). id_p p \<noteq> Some product_id) \<longrightarrow>
         get_product str product_id s = abort 404 (Product_not_found_for_id product_id)
         \<and> status (respond (get_product str product_id s)) = 404)"
proof (intro conjI impI)
  assume "\<exists>p\<in>set (rows s). id_p p = Some product_id"
  then obtain q where q: "Product_find product_id s = Some q" "q \<in> set (rows s)"
      "id_p q = Some product_id"
    by (rule Product_find_exists)
  then have "get_product str product_id s =
      Inr \<lparr>status = 200, body = Body_dict (serialize str q), response_headers = []\<rparr>"
    by (simp add: get_product_def HTTP_200_OK_def)
  with q show "\<exists>p\<in>set (rows s). id_p p = Some product_id \<and>
         get_product str product_id s =
           Inr \<lparr>status = 200, body = Body_dict (serialize str p), response_headers = []\<rparr>"
    by blast
next
  assume "distinct (map id_p (rows s)) \<and> p \<in> set (rows s) \<and> id_p p = Some product_id"
  then have "Product_find product_id s = Some p" by (simp add: Product_find_distinct)
  then show "get_product str product_id s =
      Inr \<lparr>status = 200, body = Body_dict (serialize str p), response_headers = []\<rparr>"
    by (simp add: get_product_def HTTP_200_OK_def)
next
  assume "\<forall>p\<in>set (rows s). id_p p \<noteq> Some product_id"
  then have n: "Product_find product_id s = None" by (simp add: Product_find_None)
  then show g: "get_product str product_id s = abort 404 (Product_not_found_for_id product_id)"
    by (simp add: get_product_def HTTP_404_NOT_FOUND_def)
  show "status (respond (get_product str product_id s)) = 404"
    by (simp only: g respond_abort)
qed

theorem get_product_found_or_missing_witness:
  "(\<exists>p\<in>set (rows catalogue). id_p p = Some 2 \<and>
      get_product str_text 2 catalogue =
        Inr \<lparr>status = 200, body = Body_dict (serialize str_text p), response_headers = []\<rparr>)
   \<and> get_product str_text 2 catalogue =
     Inr \<lparr>status = 200, body = Body_dict (serialize str_text apple), response_headers = []\<rparr>
   \<and> get_product str_text 5000 catalogue = abort 404 (Product_not_found_for_id 5000)
   \<and> status (respond (get_product str_text 5000 catalogue)) = 404"
proof -
  have f: "distinct (map id_p (rows catalogue)) \<and> apple \<in> set (rows catalogue) \<and> id_p apple = Some 2"
    by (simp add: example_defs)
  then have e: "\<exists>p\<in>set (rows catalogue). id_p p = Some 2" by blast
  have m: "\<forall>p\<in>set (rows catalogue). id_p p \<noteq> Some 5000"
    by (simp add: example_defs)
  from e f m
    get_product_found_or_missing[where s = catalogue and p = apple and product_id = 2 and str = str_text]
    get_product_found_or_missing[where s = catalogue and product_id = 5000 and str = str_text]
  show ?thesis by blast
qed

text \<open>
  Claim C8. Deleting an identifier that no stored product has is aborted with 404 and
  changes nothing. Deleting one that a stored product has is answered with 204 and an
  empty body; the products with that identifier are gone from the store, the others
  stay, and reading the identifier afterwards is aborted with 404.
\<close>

theorem delete_product_then_get:
  "((\<forall>p\<in>set (rows s). id_p p \<noteq> Some product_id) \<longrightarrow>
      delete_product product_id s = (abort 404 (Product_not_found_for_id product_id), s)
      \<and> status (respond (fst (delete_product product_id s))) = 404)
   \<and> ((\<exists>p\<in>set (rows s). id_p p = Some product_id) \<longrightarrow>
      fst (delete_product product_id s) =
        Inr \<lparr>status = 204, body = Body_text [], response_headers = []\<rparr>
      \<and> rows (snd (delete_product product_id s)) =
          filter (\<lambda>q. id_p q \<noteq> Some product_id) (rows s)
      \<and> get_product str product_id (snd (delete_product product_id s)) =
          abort 404 (Product_not_found_for_id product_id)
      \<and> status (respond (get_product str product_id (snd (delete_product product_id s)))) = 404)"
proof (intro conjI impI)
  assume "\<forall>p\<in>set (rows s). id_p p \<noteq> Some product_id"
  then have n: "Product_find product_id s = None" by (simp add: Product_find_None)
  then show d: "delete_product product_id s = (abort 404 (Product_not_found_for_id product_id), s)"
    by (simp add: delete_product_def HTTP_404_NOT_FOUND_def)
  show "status (respond (fst (delete_product product_id s))) = 404"
    by (simp only: d fst_conv respond_abort)
next
  assume e: "\<exists>p\<in>set (rows s). id_p p = Some product_id"
  then obtain q where q: "Product_find product_id s = Some q" "id_p q = Some product_id"
    by (rule Product_find_exists)
  then have d: "delete_product product_id s =
      (Inr \<lparr>status = 204, body = Body_text [], response_headers = []\<rparr>,
       s\<lparr>rows := filter (\<lambda>q. id_p q \<noteq> Some product_id) (rows s)\<rparr>)"
    by (simp add: delete_product_def Product_delete_def HTTP_204_NO_CONTENT_def)
  show "fst (delete_product product_id s) =
      Inr \<lparr>status = 204, body = Body_text [], response_headers = []\<rparr>"
    by (simp only: d fst_conv)
  show r: "rows (snd (delete_product product_id s)) =
      filter (\<lambda>q. id_p q \<noteq> Some product_id) (rows s)"
    by (simp add: d)
  have "\<forall>p\<in>set (rows (snd (delete_product product_id s))). id_p p \<noteq> Some product_id"
    by (simp add: r)
  then have "Product_find product_id (snd (delete_product product_id s)) = None"
    by (simp only: Product_find_None)
  then show g: "get_product str product_id (snd (delete_product product_id s)) =
      abort 404 (Product_not_found_for_id product_id)"
    by (simp add: get_product_def HTTP_404_NOT_FOUND_def)
  show "status (respond (get_product str product_id (snd (delete_product product_id s)))) = 404"
    by (simp only: g respond_abort)
qed

theorem delete_product_then_get_witness:
  "delete_product 1000 catalogue = (abort 404 (Product_not_found_for_id 1000), catalogue)
   \<and> status (respond (fst (delete_product 1000 catalogue))) = 404
   \<and> fst (delete_product 2 catalogue) =
        Inr \<lparr>status = 204, body = Body_text [], response_headers = []\<rparr>
   \<and> rows (snd (delete_product 2 catalogue)) = [fedora, beret]
   \<and> status (respond (get_product str_text 2 (snd (delete_product 2 catalogue)))) = 404"
proof -
  have m: "\<forall>p\<in>set (rows catalogue). id_p p \<noteq> Some 1000"
    by (simp add: example_defs)
  have e: "\<exists>p\<in>set (rows catalogue). id_p p = Some 2"
    by (simp add: example_defs)
  have f: "filter (\<lambda>q. id_p q \<noteq> Some 2) (rows catalogue) = [fedora, beret]"
    by (simp add: example_defs)
  from m delete_product_then_get[where s = catalogue and product_id = 1000 and str = str_text]
  have 1: "delete_product 1000 catalogue = (abort 404 (Product_not_found_for_id 1000), catalogue)
      \<and> status (respond (fst (delete_product 1000 catalogue))) = 404"
    by blast
  from e delete_product_then_get[where s = catalogue and product_id = 2 and str = str_text]
  have 2: "fst (delete_product 2 catalogue) =
        Inr \<lparr>status = 204, body = Body_text [], response_headers = []\<rparr>
      \<and> rows (snd (delete_product 2 catalogue)) =
          filter (\<lambda>q. id_p q \<noteq> Some 2) (rows catalogue)
      \<and> status (respond (get_product str_text 2 (snd (delete_product 2 catalogue)))) = 404"
    by blast
  from 1 2[unfolded f] show ?thesis by blast
qed

text \<open>
  Claim C9. An update names a stored product, has the JSON media type and a payload
  with all five fields valid. The answer is 200 with the serialisation of the entity
  that has the identifier of the request and the values of the payload in every other
  field; its \<open>id\<close> is the identifier of the request, whatever the payload says, and
  that entity is what the store now holds under the identifier. When no stored
  product has the identifier, the update is aborted with 404 for every request,
  whatever its media type: the lookup comes before the check of the media type.
\<close>

theorem update_product_keeps_id:
  "((\<exists>p\<in>set (rows s). id_p p = Some product_id)
      \<and> headers req ''Content-Type'' = Some ''application/json''
      \<and> get_json req ''name'' = Some (JStr n)
      \<and> get_json req ''description'' = Some (JStr d)
      \<and> get_json req ''price'' = Some v \<and> Decimal v = Some pr
      \<and> get_json req ''available'' = Some (JBool a)
      \<and> get_json req ''category'' = Some (JStr c) \<and> getattr_Category c = Some cat
     \<longrightarrow>
       fst (update_product Decimal str product_id req s) =
         Inr \<lparr>status = 200,
              body = Body_dict (serialize str
                \<lparr>id_p = Some product_id, name = n, description = d, price = pr,
                 available = a, category = cat\<rparr>),
              response_headers = []\<rparr>
       \<and> serialize str
            \<lparr>id_p = Some product_id, name = n, description = d, price = pr,
             available = a, category = cat\<rparr> ''id'' = Some (JInt (int product_id))
       \<and> Product_find product_id (snd (update_product Decimal str product_id req s)) =
           Some \<lparr>id_p = Some product_id, name = n, description = d, price = pr,
                 available = a, category = cat\<rparr>)
   \<and> ((\<forall>p\<in>set (rows s). id_p p \<noteq> Some product_id) \<longrightarrow>
         update_product Decimal str product_id req s =
           (abort 404 (Product_not_found_for_id product_id), s)
         \<and> status (respond (fst (update_product Decimal str product_id req s))) = 404)"
proof (intro conjI impI)
  let ?new = "\<lparr>id_p = Some product_id, name = n, description = d, price = pr,
                 available = a, category = cat\<rparr>"
  assume h: "(\<exists>p\<in>set (rows s). id_p p = Some product_id)
      \<and> headers req ''Content-Type'' = Some ''application/json''
      \<and> get_json req ''name'' = Some (JStr n)
      \<and> get_json req ''description'' = Some (JStr d)
      \<and> get_json req ''price'' = Some v \<and> Decimal v = Some pr
      \<and> get_json req ''available'' = Some (JBool a)
      \<and> get_json req ''category'' = Some (JStr c) \<and> getattr_Category c = Some cat"
  then obtain q where q: "Product_find product_id s = Some q" "id_p q = Some product_id"
    using Product_find_exists[of s product_id] by blast
  from h have "deserialize Decimal (id_p q) (get_json req) = Inr ?new"
    by (simp add: deserialize_valid q(2))
  with h have u: "update_product Decimal str product_id req s =
      (Inr \<lparr>status = 200, body = Body_dict (serialize str ?new), response_headers = []\<rparr>,
       Product_update ?new s)"
    using update_product_valid[OF q(1)] by blast
  show "fst (update_product Decimal str product_id req s) =
      Inr \<lparr>status = 200, body = Body_dict (serialize str ?new), response_headers = []\<rparr>"
    by (simp only: u fst_conv)
  show "serialize str ?new ''id'' = Some (JInt (int product_id))"
    by (simp add: serialize_def)
  from h show "Product_find product_id (snd (update_product Decimal str product_id req s)) = Some ?new"
    by (simp add: u Product_find_def Product_update_def find_after_update)
next
  assume "\<forall>p\<in>set (rows s). id_p p \<noteq> Some product_id"
  then have "Product_find product_id s = None" by (simp add: Product_find_None)
  then show u: "update_product Decimal str product_id req s =
      (abort 404 (Product_not_found_for_id product_id), s)"
    by (rule update_product_missing)
  show "status (respond (fst (update_product Decimal str product_id req s))) = 404"
    by (simp only: u fst_conv respond_abort)
qed

theorem update_product_keeps_id_witness:
  "fst (update_product Decimal_text str_text 1 (json_request new_tool) catalogue) =
     Inr \<lparr>status = 200,
          body = Body_dict (serialize str_text
            \<lparr>id_p = Some 1, name = ''Hammer'', description = ''A claw hammer'',
             price = ''111.11'', available = True, category = TOOLS\<rparr>),
          response_headers = []\<rparr>
   \<and> serialize str_text
        \<lparr>id_p = Some 1, name = ''Hammer'', description = ''A claw hammer'',
         price = ''111.11'', available = True, category = TOOLS\<rparr> ''id'' = Some (JInt 1)
   \<and> Product_find 1 (snd (update_product Decimal_text str_text 1 (json_request new_tool) catalogue)) =
       Some \<lparr>id_p = Some 1, name = ''Hammer'', description = ''A claw hammer'',
             price = ''111.11'', available = True, category = TOOLS\<rparr>
   \<and> headers (query []) ''Content-Type'' = None
   \<and> update_product Decimal_text str_text 5000 (query []) catalogue =
       (abort 404 (Product_not_found_for_id 5000), catalogue)
   \<and> status (respond (fst (update_product Decimal_text str_text 5000 (query []) catalogue))) = 404"
proof -
  let ?r = "json_request new_tool"
  have v: "(\<exists>p\<in>set (rows catalogue). id_p p = Some 1)
      \<and> headers ?r ''Content-Type'' = Some ''application/json''
      \<and> get_json ?r ''name'' = Some (JStr ''Hammer'')
      \<and> get_json ?r ''description'' = Some (JStr ''A claw hammer'')
      \<and> get_json ?r ''price'' = Some (JStr ''111.11'') \<and> Decimal_text (JStr ''111.11'') = Some ''111.11''
      \<and> get_json ?r ''available'' = Some (JBool True)
      \<and> get_json ?r ''category'' = Some (JStr ''TOOLS'') \<and> getattr_Category ''TOOLS'' = Some TOOLS"
    by (simp add: example_defs new_tool_def getattr_Category_def)
  have m: "\<forall>p\<in>set (rows catalogue). id_p p \<noteq> Some 5000"
    by (simp add: example_defs)
  have w: "headers (query []) ''Content-Type'' = None" by (simp add: query_def)
  from v update_product_keeps_id[where s = catalogue and product_id = 1 and req = ?r and Decimal = Decimal_text
      and str = str_text and n = "''Hammer''" and d = "''A claw hammer''" and v = "JStr ''111.11''"
      and pr = "''111.11''" and a = True and c = "''TOOLS''" and cat = TOOLS]
  have 1: "fst (update_product Decimal_text str_text 1 ?r catalogue) =
     Inr \<lparr>status = 200,
          body = Body_dict (serialize str_text
            \<lparr>id_p = Some 1, name = ''Hammer'', description = ''A claw hammer'',
             price = ''111.11'', available = True, category = TOOLS\<rparr>),
          response_headers = []\<rparr>
   \<and> serialize str_text
        \<lparr>id_p = Some 1, name = ''Hammer'', description = ''A claw hammer'',
         price = ''111.11'', available = True, category = TOOLS\<rparr> ''id'' = Some (JInt (int 1))
   \<and> Product_find 1 (snd (update_product Decimal_text str_text 1 ?r catalogue)) =
       Some \<lparr>id_p = Some 1, name = ''Hammer'', description = ''A claw hammer'',
             price = ''111.11'', available = True, category = TOOLS\<rparr>"
    by blast
  from m update_product_keeps_id[where s = catalogue and product_id = 5000 and req = "query []"
      and Decimal = Decimal_text and str = str_text]
  have 2: "update_product Decimal_text str_text 5000 (query []) catalogue =
       (abort 404 (Product_not_found_for_id 5000), catalogue)
   \<and> status (respond (fst (update_product Decimal_text str_text 5000 (query []) catalogue))) = 404"
    by blast
  from 1[unfolded of_nat_1] w 2 show ?thesis by blast
qed

text \<open>
  Claim C10. A \<open>name\<close>, \<open>category\<close> or \<open>available\<close> parameter whose value is the
  empty text counts as absent: the handler answers as it does for the request without
  that parameter. In particular an empty \<open>available\<close> is not rejected: unless the
  category is, the answer has status 200.
\<close>

theorem get_products_empty_parameter:
  assumes "k \<in> {''name'', ''category'', ''available''}" and "args req k = Some []"
  shows "get_products str req s = get_products str (req\<lparr>args := (args req)(k := None)\<rparr>) s
       \<and> (k = ''available'' \<and> category_ok req \<longrightarrow> status (respond (get_products str req s)) = 200)"
proof
  from assms(1) consider "k = ''name''" | "k = ''category''" | "k = ''available''" by auto
  then show "get_products str req s = get_products str (req\<lparr>args := (args req)(k := None)\<rparr>) s"
  proof cases
    case 1
    with assms(2) show ?thesis by (simp only: get_products_empty_name)
  next
    case 2
    with assms(2) show ?thesis by (simp only: get_products_empty_category)
  next
    case 3
    with assms(2) show ?thesis by (simp only: get_products_empty_available)
  qed
next
  show "k = ''available'' \<and> category_ok req \<longrightarrow> status (respond (get_products str req s)) = 200"
  proof
    assume h: "k = ''available'' \<and> category_ok req"
    with assms(2) have "available_ok req" by (simp add: available_ok_def)
    with h have "get_products str req s =
           listing str (filter (\<lambda>p. name_matches req p \<and> category_matches req p \<and> available_matches req p) (rows s))"
      by (simp only: get_products_valid)
    then show "status (respond (get_products str req s)) = 200"
      by (simp only: respond_listing)
  qed
qed

theorem get_products_empty_parameter_witness:
  "''available'' \<in> {''name'', ''category'', ''available''}
   \<and> args (query [(''available'', [])]) ''available'' = Some []
   \<and> get_products str_text (query [(''available'', [])]) catalogue =
       get_products str_text (query []) catalogue
   \<and> status (respond (get_products str_text (query [(''available'', [])]) catalogue)) = 200
   \<and> get_products str_text (query [(''category'', [])]) catalogue =
       get_products str_text (query []) catalogue"
proof -
  let ?q = "query [(''available'', [])]" and ?c = "query [(''category'', [])]"
  have k: "''available'' \<in> {''name'', ''category'', ''available''}"
    and k': "''category'' \<in> {''name'', ''category'', ''available''}" by simp_all
  have a: "args ?q ''available'' = Some []"
    and a': "args ?c ''category'' = Some []" by (simp_all add: query_def)
  have c: "''available'' = ''available'' \<and> category_ok ?q"
    by (simp add: query_def category_ok_def)
  have r: "?q\<lparr>args := (args ?q)(''available'' := None)\<rparr> = query []"
    and r': "?c\<lparr>args := (args ?c)(''category'' := None)\<rparr> = query []"
    by (simp_all add: query_def)
  from get_products_empty_parameter[OF k a, where str = str_text and s = catalogue] c
  have "get_products str_text ?q catalogue =
          get_products str_text (?q\<lparr>args := (args ?q)(''available'' := None)\<rparr>) catalogue"
    and st: "status (respond (get_products str_text ?q catalogue)) = 200"
    by blast+
  then have 1: "get_products str_text ?q catalogue = get_products str_text (query []) catalogue"
    by (simp only: r)
  from get_products_empty_parameter[OF k' a', where str = str_text and s = catalogue]
  have "get_products str_text ?c catalogue =
          get_products str_text (?c\<lparr>args := (args ?c)(''category'' := None)\<rparr>) catalogue"
    by blast
  then have 2: "get_products str_text ?c catalogue = get_products str_text (query []) catalogue"
    by (simp only: r')
  from k a st 1 2 show ?thesis by blast
qed

end
